theory Spec2Isabelle
  imports Complex_Main "HOL-Library.Sublist" "HOL-Library.AList"
begin

section \<open>Python strings\<close>

text \<open>
  The program is Python 3: a \<open>str\<close> is a sequence of code points and \<open>len\<close> counts code
  points. A \<^typ>\<open>string\<close> here is the sequence of code points of a \<open>str\<close> whose code
  points all lie in U+0000..U+00FF, one \<^typ>\<open>char\<close> per code point; the character classes
  below are Python's on that range. The fixed messages of the program contain a few symbols
  beyond U+00FF (emoji, a bullet); they are written as the bytes of their UTF-8 encoding.
\<close>

definition is_space :: "char \<Rightarrow> bool" where
  \<comment> \<open>\<open>str.isspace\<close>, the class \<open>\s\<close> and what \<open>str.strip()\<close> removes\<close>
  "is_space c = (let n = (of_char c :: nat)
     in (9 \<le> n \<and> n \<le> 13) \<or> (28 \<le> n \<and> n \<le> 32) \<or> n = 133 \<or> n = 160)"

definition is_digit :: "char \<Rightarrow> bool" where
  \<comment> \<open>the class \<open>\d\<close>\<close>
  "is_digit c = (let n = (of_char c :: nat) in 48 \<le> n \<and> n \<le> 57)"

definition is_upper_az :: "char \<Rightarrow> bool" where
  "is_upper_az c = (let n = (of_char c :: nat) in 65 \<le> n \<and> n \<le> 90)"

definition is_lower_az :: "char \<Rightarrow> bool" where
  "is_lower_az c = (let n = (of_char c :: nat) in 97 \<le> n \<and> n \<le> 122)"

definition is_alpha_az :: "char \<Rightarrow> bool" where
  \<comment> \<open>the class \<open>[a-zA-Z]\<close>\<close>
  "is_alpha_az c = (is_lower_az c \<or> is_upper_az c)"

definition lower_char :: "char \<Rightarrow> char" where
  "lower_char c = (let n = (of_char c :: nat)
     in if (65 \<le> n \<and> n \<le> 90) \<or> (192 \<le> n \<and> n \<le> 222 \<and> n \<noteq> 215)
        then char_of (n + 32) else c)"

definition py_lower :: "string \<Rightarrow> string" where
  \<comment> \<open>\<open>str.lower()\<close>\<close>
  "py_lower s = map lower_char s"

definition py_strip :: "string \<Rightarrow> string" where
  \<comment> \<open>\<open>str.strip()\<close>\<close>
  "py_strip s = rev (dropWhile is_space (rev (dropWhile is_space s)))"

fun py_in :: "string \<Rightarrow> string \<Rightarrow> bool" where
  \<comment> \<open>\<open>needle in hay\<close> on strings\<close>
  "py_in needle [] = (needle = [])"
| "py_in needle (c # cs) = (prefix needle (c # cs) \<or> py_in needle cs)"

fun py_split :: "char \<Rightarrow> string \<Rightarrow> string list" where
  \<comment> \<open>\<open>str.split(sep)\<close> for a separator of one character\<close>
  "py_split sep [] = [[]]"
| "py_split sep (c # cs) =
     (if c = sep then [] # py_split sep cs
      else (case py_split sep cs of [] \<Rightarrow> [[c]] | p # ps \<Rightarrow> (c # p) # ps))"

fun py_join :: "string \<Rightarrow> string list \<Rightarrow> string" where
  \<comment> \<open>\<open>sep.join(items)\<close>\<close>
  "py_join sep [] = []"
| "py_join sep [x] = x"
| "py_join sep (x # y # ys) = x @ sep @ py_join sep (y # ys)"

definition digit_char :: "nat \<Rightarrow> char" where
  "digit_char d = char_of (48 + d)"

fun str_nat :: "nat \<Rightarrow> string" where
  "str_nat n = (if n < 10 then [digit_char n] else str_nat (n div 10) @ [digit_char (n mod 10)])"

declare str_nat.simps [simp del]

definition py_str :: "int \<Rightarrow> string" where
  \<comment> \<open>\<open>str(n)\<close> and \<open>f"{n}"\<close> for an \<open>int\<close>\<close>
  "py_str n = (if n < 0 then CHR ''-'' # str_nat (nat (- n)) else str_nat (nat n))"

definition digit_val :: "char \<Rightarrow> nat" where
  "digit_val c = of_char c - 48"

definition py_int :: "string \<Rightarrow> int" where
  \<comment> \<open>\<open>int(s)\<close> for a non-empty string of decimal digits\<close>
  "py_int s = int (foldl (\<lambda>acc c. 10 * acc + digit_val c) 0 s)"

section \<open>The question generator (ai\_question\_generator.py)\<close>

type_synonym question_cache = "(string \<times> string) list"

definition difficulty_levels :: "(int \<times> string) list" where
  "difficulty_levels = [(1, ''basic''), (2, ''intermediate''), (3, ''advanced'')]"

definition dict_get :: "('k \<times> 'v) list \<Rightarrow> 'k \<Rightarrow> 'v \<Rightarrow> 'v" where
  \<comment> \<open>\<open>d.get(key, default)\<close> on a dict literal\<close>
  "dict_get d k dflt = (case map_of d k of Some v \<Rightarrow> v | None \<Rightarrow> dflt)"

definition create_question_prompt :: "string \<Rightarrow> int \<Rightarrow> string" where
  "create_question_prompt technology question_number =
     (let difficulty = dict_get difficulty_levels question_number ''intermediate''
      in ''Generate a '' @ difficulty @ '' technical interview question about '' @ technology
         @ '' for a software developer position.'')"

definition tech_questions :: "(string \<times> (string \<times> string list) list) list" where
  "tech_questions =
  [(''python'',
    [(''basic'',
       [''What are the key differences between lists and tuples in Python?'',
        ''Explain how Python's garbage collection works.'',
        ''What is the difference between '==' and 'is' operators in Python?'']),
     (''intermediate'',
       [''How do decorators work in Python? Provide an example.'',
        ''Explain the concept of generators and their advantages over regular functions.'',
        ''What are context managers in Python and how do you implement them?'']),
     (''advanced'',
       [''How would you implement a metaclass in Python and when would you use it?'',
        ''Explain the Global Interpreter Lock (GIL) and its impact on multithreading.'',
        ''How would you optimize Python code for better performance?''])]),
   (''javascript'',
    [(''basic'',
       [''What is the difference between var, let, and const in JavaScript?'',
        ''Explain how hoisting works in JavaScript.'',
        ''What are the different data types in JavaScript?'']),
     (''intermediate'',
       [''How do closures work in JavaScript? Provide an example.'',
        ''Explain event bubbling and event capturing.'',
        ''What is the difference between synchronous and asynchronous code?'']),
     (''advanced'',
       [''How does the JavaScript event loop work?'',
        ''Explain prototypal inheritance in JavaScript.'',
        ''How would you implement a Promise from scratch?''])]),
   (''react'',
    [(''basic'',
       [''What is the difference between state and props in React?'',
        ''Explain the concept of JSX.'',
        ''What are React components and how do you create them?'']),
     (''intermediate'',
       [''How do React hooks work and why were they introduced?'',
        ''Explain the component lifecycle methods in React.'',
        ''What is the virtual DOM and how does it improve performance?'']),
     (''advanced'',
       [''How would you optimize a React application for better performance?'',
        ''Explain React's reconciliation algorithm.'',
        ''How do you implement code splitting in React?''])]),
   (''node.js'',
    [(''basic'',
       [''What is Node.js and how does it differ from browser JavaScript?'',
        ''Explain the concept of modules in Node.js.'',
        ''What is npm and how do you manage dependencies?'']),
     (''intermediate'',
       [''How does the Node.js event loop work?'',
        ''Explain the difference between synchronous and asynchronous operations.'',
        ''How do you handle errors in Node.js applications?'']),
     (''advanced'',
       [''How would you scale a Node.js application?'',
        ''Explain cluster and worker threads in Node.js.'',
        ''How do you implement caching strategies in Node.js?''])]),
   (''java'',
    [(''basic'',
       [''What is the difference between abstract classes and interfaces in Java?'',
        ''Explain the concept of inheritance in Java.'',
        ''What are the different access modifiers in Java?'']),
     (''intermediate'',
       [''How does garbage collection work in Java?'',
        ''Explain the concept of polymorphism with examples.'',
        ''What are generics in Java and why are they useful?'']),
     (''advanced'',
       [''How do you optimize Java applications for better performance?'',
        ''Explain the Java memory model and its implications.'',
        ''How would you implement a custom thread pool in Java?''])]),
   (''sql'',
    [(''basic'',
       [''What is the difference between INNER JOIN and LEFT JOIN?'',
        ''Explain the concept of primary keys and foreign keys.'',
        ''What are the different types of SQL commands?'']),
     (''intermediate'',
       [''How do you optimize slow-running SQL queries?'',
        ''Explain database normalization and its benefits.'',
        ''What are indexes and how do they improve performance?'']),
     (''advanced'',
       [''How would you design a database schema for a complex application?'',
        ''Explain ACID properties in database transactions.'',
        ''How do you handle database concurrency and locking?''])]),
   (''mongodb'',
    [(''basic'',
       [''What is MongoDB and how does it differ from relational databases?'',
        ''Explain the concept of documents and collections.'',
        ''How do you perform basic CRUD operations in MongoDB?'']),
     (''intermediate'',
       [''How do you design efficient MongoDB schemas?'',
        ''Explain indexing strategies in MongoDB.'',
        ''What are aggregation pipelines and how do you use them?'']),
     (''advanced'',
       [''How would you implement sharding in MongoDB?'',
        ''Explain replica sets and their role in high availability.'',
        ''How do you optimize MongoDB performance?''])]),
   (''docker'',
    [(''basic'',
       [''What is Docker and what problems does it solve?'',
        ''Explain the difference between Docker images and containers.'',
        ''How do you create a basic Dockerfile?'']),
     (''intermediate'',
       [''How do you manage multi-container applications with Docker Compose?'',
        ''Explain Docker networking and volume management.'',
        ''What are the best practices for writing Dockerfiles?'']),
     (''advanced'',
       [''How would you implement a CI/CD pipeline with Docker?'',
        ''Explain Docker orchestration with Kubernetes.'',
        ''How do you optimize Docker images for production?''])]),
   (''kubernetes'',
    [(''basic'',
       [''What is Kubernetes and what problems does it solve?'',
        ''Explain the concept of pods, services, and deployments.'',
        ''How do you deploy an application to Kubernetes?'']),
     (''intermediate'',
       [''How does Kubernetes handle service discovery and load balancing?'',
        ''Explain ConfigMaps and Secrets in Kubernetes.'',
        ''What are the different types of Kubernetes services?'']),
     (''advanced'',
       [''How would you implement auto-scaling in Kubernetes?'',
        ''Explain Kubernetes networking and ingress controllers.'',
        ''How do you monitor and troubleshoot Kubernetes clusters?''])])]"

definition generic_questions :: "string \<Rightarrow> (string \<times> string list) list" where
  "generic_questions technology =
  [(''basic'',
     [''What are the fundamental concepts you should know when working with '' @ technology @ ''?'',
      ''How would you explain '' @ technology @ '' to someone who's new to it?'',
      ''What are the main advantages of using '' @ technology @ '' in development?'']),
   (''intermediate'',
     [''What are some best practices when developing with '' @ technology @ ''?'',
      ''How would you debug common issues in '' @ technology @ '' applications?'',
      ''What are the performance considerations when using '' @ technology @ ''?'']),
   (''advanced'',
     [''How would you architect a large-scale application using '' @ technology @ ''?'',
      ''What are the advanced features of '' @ technology @ '' that you've worked with?'',
      ''How would you optimize and scale applications built with '' @ technology @ ''?''])]"

definition rotate :: "string list \<Rightarrow> int \<Rightarrow> string" where
  \<comment> \<open>\<open>qs[(question_number - 1) % len(qs)]\<close>, called on a non-empty list only\<close>
  "rotate qs question_number = qs ! nat ((question_number - 1) mod int (length qs))"

fun partial_matches ::
  "(string \<times> (string \<times> string list) list) list \<Rightarrow> string \<Rightarrow> string \<Rightarrow> int \<Rightarrow> string option" where
  \<comment> \<open>the loop \<open>for key in tech_questions\<close>, over the entries in the order of the literal\<close>
  "partial_matches [] tech_lower difficulty question_number = None"
| "partial_matches ((key, tiers) # rest) tech_lower difficulty question_number =
     (if py_in key tech_lower \<or> py_in tech_lower key then
        (let questions_by_difficulty = dict_get tiers difficulty []
         in if questions_by_difficulty \<noteq> []
            then Some (rotate questions_by_difficulty question_number)
            else partial_matches rest tech_lower difficulty question_number)
      else partial_matches rest tech_lower difficulty question_number)"

definition exact_match :: "string \<Rightarrow> string \<Rightarrow> int \<Rightarrow> string option" where
  \<comment> \<open>the branch \<open>if tech_lower in tech_questions\<close>; None when it falls through\<close>
  "exact_match tech_lower difficulty question_number =
     (case map_of tech_questions tech_lower of
        None \<Rightarrow> None
      | Some tiers \<Rightarrow>
          (let questions_by_difficulty = dict_get tiers difficulty []
           in if questions_by_difficulty \<noteq> []
              then Some (rotate questions_by_difficulty question_number)
              else None))"

definition generate_with_simple_ai :: "string \<Rightarrow> string \<Rightarrow> int \<Rightarrow> string option" where
  "generate_with_simple_ai prompt technology question_number =
     (let tech_lower = py_lower technology;
          difficulty = dict_get difficulty_levels question_number ''intermediate''
      in case exact_match tech_lower difficulty question_number of
           Some q \<Rightarrow> Some q
         | None \<Rightarrow>
            (case partial_matches tech_questions tech_lower difficulty question_number of
               Some q \<Rightarrow> Some q
             | None \<Rightarrow>
                (let questions = dict_get (generic_questions technology) difficulty
                                   (dict_get (generic_questions technology) ''intermediate'' [])
                 in Some (rotate questions question_number))))"

definition cache_key :: "string \<Rightarrow> int \<Rightarrow> string" where
  "cache_key technology question_number = py_lower technology @ ''_'' @ py_str question_number"

definition generate_question ::
  "string \<Rightarrow> int \<Rightarrow> question_cache \<Rightarrow> string option \<times> question_cache" where
  "generate_question technology question_number cache =
     (case map_of cache (cache_key technology question_number) of
        Some cached \<Rightarrow> (Some cached, cache)
      | None \<Rightarrow>
         (let prompt = create_question_prompt technology question_number;
              question = generate_with_simple_ai prompt technology question_number
          in case question of
               None \<Rightarrow> (None, cache)
             | Some q \<Rightarrow>
                 if q \<noteq> [] then (Some q, AList.update (cache_key technology question_number) q cache)
                 else (None, cache)))"

section \<open>Regular expressions (module re)\<close>

text \<open>
  The three validation patterns are built from character classes, concatenation, \<open>?\<close>,
  \<open>+\<close> and bounded repetition. A pattern is a value of \<open>rexp\<close>; \<open>matches\<close> decides
  whether a whole string belongs to it, by derivatives. Python's backtracking search finds a
  match of \<open>^r$\<close> exactly when one exists, so \<open>re.match\<close> on an anchored pattern is
  membership, with Python's reading of \<open>$\<close>: the end of the string, or just before a
  newline that ends the string.
\<close>

datatype rexp =
    Zero
  | One
  | Atom "char \<Rightarrow> bool"
  | Plus rexp rexp
  | Times rexp rexp
  | Star rexp

fun nullable :: "rexp \<Rightarrow> bool" where
  "nullable Zero = False"
| "nullable One = True"
| "nullable (Atom P) = False"
| "nullable (Plus r s) = (nullable r \<or> nullable s)"
| "nullable (Times r s) = (nullable r \<and> nullable s)"
| "nullable (Star r) = True"

fun deriv :: "char \<Rightarrow> rexp \<Rightarrow> rexp" where
  "deriv c Zero = Zero"
| "deriv c One = Zero"
| "deriv c (Atom P) = (if P c then One else Zero)"
| "deriv c (Plus r s) = Plus (deriv c r) (deriv c s)"
| "deriv c (Times r s) =
     (if nullable r then Plus (Times (deriv c r) s) (deriv c s) else Times (deriv c r) s)"
| "deriv c (Star r) = Times (deriv c r) (Star r)"

fun matches :: "rexp \<Rightarrow> string \<Rightarrow> bool" where
  "matches r [] = nullable r"
| "matches r (c # cs) = matches (deriv c r) cs"

fun rep_between :: "rexp \<Rightarrow> nat \<Rightarrow> nat \<Rightarrow> rexp" where
  \<comment> \<open>\<open>r{m,n}\<close>\<close>
  "rep_between r 0 0 = One"
| "rep_between r 0 (Suc n) = Plus One (Times r (rep_between r 0 n))"
| "rep_between r (Suc m) 0 = Zero"
| "rep_between r (Suc m) (Suc n) = Times r (rep_between r m n)"

fun rep_min :: "rexp \<Rightarrow> nat \<Rightarrow> rexp" where
  \<comment> \<open>\<open>r{m,}\<close>; \<open>r+\<close> is \<open>r{1,}\<close>\<close>
  "rep_min r 0 = Star r"
| "rep_min r (Suc m) = Times r (rep_min r m)"

definition opt :: "rexp \<Rightarrow> rexp" where
  \<comment> \<open>\<open>r?\<close>\<close>
  "opt r = Plus One r"

definition lit :: "char \<Rightarrow> rexp" where
  "lit c = Atom (\<lambda>x. x = c)"

definition re_match :: "rexp \<Rightarrow> string \<Rightarrow> bool" where
  \<comment> \<open>\<open>re.match(p, s)\<close> is not None, for the pattern \<open>^r$\<close>\<close>
  "re_match r s = matches (Times r (opt (lit CHR 0x0A))) s"

definition re_search_digits :: "string \<Rightarrow> string option" where
  \<comment> \<open>\<open>re.search(r'\d+', s)\<close>: the leftmost match, as long as it can be; its \<open>group()\<close>\<close>
  "re_search_digits s =
     (let rest = dropWhile (\<lambda>c. \<not> is_digit c) s
      in if rest = [] then None else Some (takeWhile is_digit rest))"

text \<open>The language of a pattern, for reasoning about every string it accepts.\<close>

definition conc :: "string set \<Rightarrow> string set \<Rightarrow> string set" where
  "conc A B = {u @ v | u v. u \<in> A \<and> v \<in> B}"

inductive_set star :: "string set \<Rightarrow> string set" for A :: "string set" where
  star_empty: "[] \<in> star A"
| star_step: "u \<in> A \<Longrightarrow> v \<in> star A \<Longrightarrow> u @ v \<in> star A"

fun lang :: "rexp \<Rightarrow> string set" where
  "lang Zero = {}"
| "lang One = {[]}"
| "lang (Atom P) = {[c] | c. P c}"
| "lang (Plus r s) = lang r \<union> lang s"
| "lang (Times r s) = conc (lang r) (lang s)"
| "lang (Star r) = star (lang r)"

section \<open>The conversation engine (chatbot.py)\<close>

datatype pyval = PStr string | PList "string list"

datatype error = KeyError | IndexError | TypeError

definition py_truthy :: "pyval \<Rightarrow> bool" where
  "py_truthy v = (case v of PStr s \<Rightarrow> s \<noteq> [] | PList xs \<Rightarrow> xs \<noteq> [])"

definition py_items :: "pyval \<Rightarrow> string list" where
  \<comment> \<open>the value as a sequence of strings: what indexing, \<open>len\<close> and \<open>join\<close> see\<close>
  "py_items v = (case v of PList xs \<Rightarrow> xs | PStr s \<Rightarrow> map (\<lambda>c. [c]) s)"

definition if_question :: "string option \<Rightarrow> string option" where
  \<comment> \<open>the test \<open>if question:\<close> on an \<open>Optional[str]\<close>: None and the empty string fail it\<close>
  "if_question q = (case q of None \<Rightarrow> None | Some x \<Rightarrow> if x \<noteq> [] then Some x else None)"

record chatbot =
  question_cache :: question_cache
  conversation_state :: string
  candidate_data :: "(string \<times> pyval) list"
  technical_questions :: "string list"
  current_tech_index :: nat

definition questions_per_tech :: nat where
  "questions_per_tech = 3"

definition states :: "string list" where
  "states = [''greeting'', ''name'', ''email'', ''phone'', ''experience'',
             ''position'', ''location'', ''tech_stack'', ''technical_questions'', ''completed'']"

definition name_pattern :: rexp where
  \<comment> \<open>\<open>^[a-zA-Z\s]{2,50}$\<close>\<close>
  "name_pattern = rep_between (Atom (\<lambda>c. is_alpha_az c \<or> is_space c)) 2 50"

definition email_local :: "char \<Rightarrow> bool" where
  \<comment> \<open>\<open>[a-zA-Z0-9._%+-]\<close>\<close>
  "email_local c = (is_alpha_az c \<or> is_digit c \<or> c \<in> set ''._%+-'')"

definition email_domain :: "char \<Rightarrow> bool" where
  \<comment> \<open>\<open>[a-zA-Z0-9.-]\<close>\<close>
  "email_domain c = (is_alpha_az c \<or> is_digit c \<or> c \<in> set ''.-'')"

definition email_pattern :: rexp where
  \<comment> \<open>\<open>^[a-zA-Z0-9._%+-]+@[a-zA-Z0-9.-]+\.[a-zA-Z]{2,}$\<close>\<close>
  "email_pattern =
     Times (rep_min (Atom email_local) 1)
       (Times (lit CHR ''@'')
          (Times (rep_min (Atom email_domain) 1)
             (Times (lit CHR ''.'') (rep_min (Atom is_alpha_az) 2))))"

definition phone_char :: "char \<Rightarrow> bool" where
  \<comment> \<open>\<open>[\d\s\-\(\)\.]\<close>\<close>
  "phone_char c = (is_digit c \<or> is_space c \<or> c \<in> set ''-().'')"

definition phone_pattern :: rexp where
  \<comment> \<open>\<open>^[\+]?[\d\s\-\(\)\.]{8,20}$\<close>\<close>
  "phone_pattern = Times (opt (lit CHR ''+'')) (rep_between (Atom phone_char) 8 20)"

definition init_chatbot :: chatbot where
  "init_chatbot =
     \<lparr>question_cache = [], conversation_state = ''greeting'', candidate_data = [],
      technical_questions = [], current_tech_index = 0\<rparr>"

definition wave :: string where
  "wave = [CHR 0xF0, CHR 0x9F, CHR 0x91, CHR 0x8B]"

definition laptop :: string where
  "laptop = [CHR 0xF0, CHR 0x9F, CHR 0x92, CHR 0xBB]"

definition wrench :: string where
  "wrench = [CHR 0xF0, CHR 0x9F, CHR 0x94, CHR 0xA7]"

definition party :: string where
  "party = [CHR 0xF0, CHR 0x9F, CHR 0x8E, CHR 0x89]"

definition bullet :: string where
  "bullet = [CHR 0xE2, CHR 0x80, CHR 0xA2]"

definition envelope :: string where
  "envelope = [CHR 0xF0, CHR 0x9F, CHR 0x93, CHR 0xA7]"

definition mobile :: string where
  "mobile = [CHR 0xF0, CHR 0x9F, CHR 0x93, CHR 0xB1]"

definition globe :: string where
  "globe = [CHR 0xF0, CHR 0x9F, CHR 0x8C, CHR 0x90]"

definition clover :: string where
  "clover = [CHR 0xF0, CHR 0x9F, CHR 0x8D, CHR 0x80]"

definition start_conversation :: "chatbot \<Rightarrow> string \<times> chatbot" where
  "start_conversation s =
     (''Hi! I'm here to help with your application. **What's your full name?**'',
      s\<lparr>conversation_state := ''name''\<rparr>)"

definition no_input_message :: string where
  "no_input_message = ''I didn't receive any input. Could you please try again?''"

definition handle_name :: "string \<Rightarrow> chatbot \<Rightarrow> (error + string) \<times> chatbot" where
  "handle_name user_input s =
     (if re_match name_pattern user_input then
        (Inr (''Nice to meet you, '' @ user_input @ ''! '' @ wave
              @ ''\<newline>\<newline>**What's your email address?**''),
         s\<lparr>candidate_data := AList.update ''name'' (PStr user_input) (candidate_data s),
           conversation_state := ''email''\<rparr>)
      else
        (Inr (''Please provide a valid full name (2-50 characters, letters and spaces only). ''
              @ ''**What's your full name?**''), s))"

definition handle_email :: "string \<Rightarrow> chatbot \<Rightarrow> (error + string) \<times> chatbot" where
  "handle_email user_input s =
     (if re_match email_pattern user_input then
        (Inr ''Great! **What's your phone number?**'',
         s\<lparr>candidate_data := AList.update ''email'' (PStr user_input) (candidate_data s),
           conversation_state := ''phone''\<rparr>)
      else
        (Inr (''Please provide a valid email address (e.g., john.doe@example.com). ''
              @ ''**What's your email address?**''), s))"

definition handle_phone :: "string \<Rightarrow> chatbot \<Rightarrow> (error + string) \<times> chatbot" where
  "handle_phone user_input s =
     (if re_match phone_pattern user_input then
        (Inr ''Perfect! **How many years of professional experience do you have?**'',
         s\<lparr>candidate_data := AList.update ''phone'' (PStr user_input) (candidate_data s),
           conversation_state := ''experience''\<rparr>)
      else
        (Inr (''Please provide a valid phone number (8-15 digits, may include +, spaces, dashes, or parentheses). ''
              @ ''**What's your phone number?**''), s))"

definition experience_reprompt :: string where
  "experience_reprompt =
     ''Please provide a valid number of years of experience (0-50 years). ''
     @ ''You can say something like '3 years' or just '3'. ''
     @ ''**How many years of professional experience do you have?**''"

definition handle_experience :: "string \<Rightarrow> chatbot \<Rightarrow> (error + string) \<times> chatbot" where
  "handle_experience user_input s =
     (case re_search_digits user_input of
        None \<Rightarrow> (Inr experience_reprompt, s)
      | Some years_match \<Rightarrow>
         (let years = py_int years_match
          in if 0 \<le> years \<and> years \<le> 50 then
               (Inr ''Excellent! **What position(s) are you interested in or applying for?**'',
                s\<lparr>candidate_data :=
                     AList.update ''experience'' (PStr (py_str years @ '' years'')) (candidate_data s),
                  conversation_state := ''position''\<rparr>)
             else (Inr experience_reprompt, s)))"

definition handle_position :: "string \<Rightarrow> chatbot \<Rightarrow> (error + string) \<times> chatbot" where
  "handle_position user_input s =
     (if length user_input \<ge> 2 then
        (Inr ''Great choice! **What's your current location (city, country)?**'',
         s\<lparr>candidate_data := AList.update ''position'' (PStr user_input) (candidate_data s),
           conversation_state := ''location''\<rparr>)
      else
        (Inr (''Please provide the position you're interested in (at least 2 characters). ''
              @ ''**What position(s) are you interested in or applying for?**''), s))"

definition handle_location :: "string \<Rightarrow> chatbot \<Rightarrow> (error + string) \<times> chatbot" where
  "handle_location user_input s =
     (if length user_input \<ge> 2 then
        (Inr (''Perfect! Now let's talk about your technical skills. '' @ laptop @ ''\<newline>\<newline>''
              @ ''**Please list your tech stack** - including programming languages, frameworks, ''
              @ ''databases, tools, and any other technologies you're proficient in. ''
              @ ''You can separate them with commas.\<newline>\<newline>''
              @ ''*Example: Python, JavaScript, React, Django, PostgreSQL, Docker*''),
         s\<lparr>candidate_data := AList.update ''location'' (PStr user_input) (candidate_data s),
           conversation_state := ''tech_stack''\<rparr>)
      else
        (Inr (''Please provide your current location (at least 2 characters). ''
              @ ''**What's your current location (city, country)?**''), s))"

definition complete_technical_assessment :: "chatbot \<Rightarrow> (error + string) \<times> chatbot" where
  "complete_technical_assessment s =
     (let s1 = s\<lparr>conversation_state := ''completed''\<rparr>
      in case map_of (candidate_data s1) ''tech_stack'' of
           None \<Rightarrow> (Inl KeyError, s1)
         | Some v \<Rightarrow>
            (Inr (''\<newline>'' @ party @ '' **Technical Assessment Complete!**\<newline>\<newline>''
                  @ ''Thank you for answering the technical questions! I've assessed your knowledge across ''
                  @ py_str (int (length (py_items v))) @ '' technologies: ''
                  @ py_join '', '' (py_items v) @ ''.\<newline>\<newline>''
                  @ ''**Next Steps:**\<newline>''
                  @ bullet @ '' Our technical team will review your responses\<newline>''
                  @ bullet @ '' You'll receive an email within 2-3 business days with feedback\<newline>''
                  @ bullet @ '' If you advance, we'll schedule a technical interview\<newline>''
                  @ bullet @ '' For any questions, contact us at hr@talentscout.com\<newline>\<newline>''
                  @ ''Is there anything else you'd like to know about the position or our company? ''
                  @ ''Otherwise, you can type 'exit' to end our conversation.''),
             s1))"

definition intro_message :: "string \<Rightarrow> string" where
  "intro_message current_tech =
     ''\<newline>'' @ wrench @ '' **Technical Assessment: '' @ current_tech @ ''**\<newline>\<newline>''
     @ ''I'll ask you '' @ py_str (int questions_per_tech) @ '' questions about '' @ current_tech @ ''. ''
     @ ''Please answer to the best of your ability.\<newline>\<newline>''"

function generate_next_technical_questions :: "chatbot \<Rightarrow> (error + string) \<times> chatbot" where
  "generate_next_technical_questions s =
     (case map_of (candidate_data s) ''tech_stack'' of
        None \<Rightarrow> (Inl KeyError, s)
      | Some v \<Rightarrow>
         if length (py_items v) \<le> current_tech_index s then (Inl IndexError, s)
         else
           (let current_tech = py_items v ! current_tech_index s;
                questions_for_current_tech = length (technical_questions s) mod questions_per_tech;
                intro = (if questions_for_current_tech = 0 then intro_message current_tech else []);
                generated = generate_question current_tech (int questions_for_current_tech + 1)
                              (question_cache s);
                s1 = s\<lparr>question_cache := snd generated\<rparr>
            in case if_question (fst generated) of
                 Some question \<Rightarrow>
                   (Inr (intro @ ''**Question '' @ py_str (int questions_for_current_tech + 1)
                         @ '' ('' @ current_tech @ ''):** '' @ question),
                    s1\<lparr>technical_questions := technical_questions s1 @ [question]\<rparr>)
               | None \<Rightarrow>
                   (let s2 = s1\<lparr>current_tech_index := current_tech_index s1 + 1\<rparr>
                    in if length (py_items v) \<le> current_tech_index s2
                       then complete_technical_assessment (s2\<lparr>conversation_state := ''completed''\<rparr>)
                       else generate_next_technical_questions s2)))"
  by pat_completeness auto
termination
  by (relation "measure (\<lambda>s. length (py_items (case map_of (candidate_data s) ''tech_stack'' of
                                   None \<Rightarrow> PList [] | Some v \<Rightarrow> v)) - current_tech_index s)")
     auto

declare generate_next_technical_questions.simps [simp del]

definition handle_tech_stack :: "string \<Rightarrow> chatbot \<Rightarrow> (error + string) \<times> chatbot" where
  "handle_tech_stack user_input s =
     (let tech_stack = filter (\<lambda>t. t \<noteq> []) (map py_strip (py_split CHR '','' user_input))
      in if length tech_stack \<ge> 1 then
           generate_next_technical_questions
             (s\<lparr>candidate_data := AList.update ''tech_stack'' (PList tech_stack) (candidate_data s),
                conversation_state := ''technical_questions'',
                current_tech_index := 0\<rparr>)
         else
           (Inr (''Please provide at least one technology from your tech stack. ''
                 @ ''You can separate multiple technologies with commas. ''
                 @ ''**Please list your tech stack:**''), s))"

definition handle_technical_questions :: "string \<Rightarrow> chatbot \<Rightarrow> (error + string) \<times> chatbot" where
  "handle_technical_questions user_input s =
     (case map_of (candidate_data s) ''tech_stack'' of
        None \<Rightarrow> (Inl KeyError, s)
      | Some v \<Rightarrow>
         if length (py_items v) \<le> current_tech_index s then (Inl IndexError, s)
         else if length (technical_questions s) mod questions_per_tech = 0 then
           (let s1 = s\<lparr>current_tech_index := current_tech_index s + 1\<rparr>
            in if length (py_items v) \<le> current_tech_index s1
               then complete_technical_assessment (s1\<lparr>conversation_state := ''completed''\<rparr>)
               else generate_next_technical_questions s1)
         else generate_next_technical_questions s)"

definition screening_complete_message :: string where
  "screening_complete_message =
     ''Our initial screening is complete! If you have any questions about the position ''
     @ ''or TalentScout, I'm happy to help. Otherwise, you can type 'exit' to end our conversation.''"

definition not_understood_message :: string where
  "not_understood_message =
     ''I'm not sure I understand. Could you please provide the information I requested? ''
     @ ''If you need help, you can type 'exit' to end our conversation.''"

definition handle_fallback :: "string \<Rightarrow> chatbot \<Rightarrow> (error + string) \<times> chatbot" where
  "handle_fallback user_input s =
     (if conversation_state s = ''completed'' then (Inr screening_complete_message, s)
      else (Inr not_understood_message, s))"

definition process_input :: "string \<Rightarrow> chatbot \<Rightarrow> (error + string) \<times> chatbot" where
  "process_input raw_input s =
     (let user_input = py_strip raw_input
      in if user_input = [] then (Inr no_input_message, s)
         else if conversation_state s = ''name'' then handle_name user_input s
         else if conversation_state s = ''email'' then handle_email user_input s
         else if conversation_state s = ''phone'' then handle_phone user_input s
         else if conversation_state s = ''experience'' then handle_experience user_input s
         else if conversation_state s = ''position'' then handle_position user_input s
         else if conversation_state s = ''location'' then handle_location user_input s
         else if conversation_state s = ''tech_stack'' then handle_tech_stack user_input s
         else if conversation_state s = ''technical_questions''
           then handle_technical_questions user_input s
         else handle_fallback user_input s)"

definition end_conversation :: "chatbot \<Rightarrow> string \<times> chatbot" where
  "end_conversation s =
     (''\<newline>'' @ wave @ '' **Thank you for your time!**\<newline>\<newline>''
      @ (if candidate_data s \<noteq> [] then ''I've recorded all the information you provided. '' else [])
      @ ''Our team will review your details and get back to you soon.\<newline>\<newline>''
      @ ''**Next Steps:**\<newline>''
      @ bullet @ '' Check your email for confirmation and next steps\<newline>''
      @ bullet @ '' Our team will contact you within 2-3 business days\<newline>''
      @ bullet @ '' Keep an eye out for updates about your application status\<newline>\<newline>''
      @ ''**Contact Information:**\<newline>''
      @ envelope @ '' hr@talentscout.com\<newline>''
      @ mobile @ '' +1 (555) 123-4567\<newline>''
      @ globe @ '' www.talentscout.com\<newline>\<newline>''
      @ ''Good luck with your application! '' @ clover,
      s\<lparr>conversation_state := ''ended''\<rparr>)"

section \<open>Progress (chatbot.py, get\_progress)\<close>

text \<open>
  \<open>get_progress\<close> computes \<open>int((current_index / len(self.states)) * 100)\<close> in binary64
  floating point. A finite float is the rational number it denotes; \<open>to_double\<close> rounds a
  rational to the nearest binary64 value, ties to even, which is what the division of two
  ints and the product of two floats return (for results below \<open>2^1024\<close> in magnitude).
\<close>

definition pow2 :: "int \<Rightarrow> rat" where
  "pow2 e = (if 0 \<le> e then 2 ^ nat e else 1 / 2 ^ nat (- e))"

function bitlen :: "int \<Rightarrow> int" where
  \<comment> \<open>the number of binary digits of a positive integer\<close>
  "bitlen n = (if n \<le> 0 then 0 else 1 + bitlen (n div 2))"
  by pat_completeness auto
termination
  by (relation "measure nat") auto

declare bitlen.simps [simp del]

definition ilog2 :: "rat \<Rightarrow> int" where
  \<comment> \<open>the exponent \<open>e\<close> with \<open>2^e \<le> x < 2^(e+1)\<close>, for \<open>x > 0\<close>\<close>
  "ilog2 x = (if 1 \<le> x then bitlen \<lfloor>x\<rfloor> - 1 else - bitlen (\<lceil>1 / x\<rceil> - 1))"

definition round_half_even :: "rat \<Rightarrow> int" where
  "round_half_even x =
     (let f = \<lfloor>x\<rfloor>; d = x - of_int f
      in if d < 1 / 2 then f else if 1 / 2 < d then f + 1 else if even f then f else f + 1)"

definition to_double :: "rat \<Rightarrow> rat" where
  "to_double x =
     (if x = 0 then 0
      else (let e = max (ilog2 \<bar>x\<bar>) (- 1022) - 52;
                m = round_half_even (\<bar>x\<bar> / pow2 e)
            in sgn x * of_int m * pow2 e))"

definition py_truediv :: "int \<Rightarrow> int \<Rightarrow> rat" where
  \<comment> \<open>\<open>a / b\<close> for ints, \<open>b\<close> not zero\<close>
  "py_truediv a b = to_double (of_int a / of_int b)"

definition py_float_mul :: "rat \<Rightarrow> rat \<Rightarrow> rat" where
  "py_float_mul x y = to_double (x * y)"

definition py_int_of_float :: "rat \<Rightarrow> int" where
  \<comment> \<open>\<open>int(x)\<close>: truncation toward zero\<close>
  "py_int_of_float x = (if 0 \<le> x then \<lfloor>x\<rfloor> else \<lceil>x\<rceil>)"

fun index_of :: "'a \<Rightarrow> 'a list \<Rightarrow> nat" where
  \<comment> \<open>\<open>xs.index(x)\<close>, called on a member only\<close>
  "index_of x [] = 0"
| "index_of x (y # ys) = (if x = y then 0 else Suc (index_of x ys))"

definition get_progress :: "chatbot \<Rightarrow> int" where
  "get_progress s =
     (if conversation_state s \<in> set states then
        (let current_index = index_of (conversation_state s) states
         in py_int_of_float
              (py_float_mul (py_truediv (int current_index) (int (length states))) 100))
      else 0)"

section \<open>The record store (database\_handler.py)\<close>

text \<open>
  Validation is in the repository; the SQLAlchemy session, the clock and \<open>hash()\<close> are not.
  The statements of \<open>save_candidate_data\<close> that follow validation (candidate id, query,
  insert or update, commit, cleanup) are the parameter \<open>persist\<close>: \<open>persist data db\<close> is
  the store after them, and None when one of them raises, in which case the handler rolls the
  session back and the store is as before the call.
\<close>

definition required_fields :: "string list" where
  "required_fields = [''name'', ''email'']"

fun check_required :: "(string \<times> pyval) list \<Rightarrow> string list \<Rightarrow> bool" where
  \<comment> \<open>the loop \<open>for field in required_fields\<close>: False where the loop returns False\<close>
  "check_required data [] = True"
| "check_required data (field # rest) =
     (case map_of data field of
        None \<Rightarrow> False
      | Some v \<Rightarrow> if \<not> py_truthy v then False else check_required data rest)"

definition validate_candidate_data :: "(string \<times> pyval) list \<Rightarrow> error + bool" where
  \<comment> \<open>the pattern is the one of the chatbot's email field, character for character\<close>
  "validate_candidate_data data =
     (if \<not> check_required data required_fields then Inr False
      else (case map_of data ''email'' of
              None \<Rightarrow> Inl KeyError
            | Some (PList xs) \<Rightarrow> Inl TypeError
            | Some (PStr email) \<Rightarrow> if \<not> re_match email_pattern email then Inr False else Inr True))"

definition save_candidate_data ::
  "((string \<times> pyval) list \<Rightarrow> 'db \<Rightarrow> 'db option) \<Rightarrow> (string \<times> pyval) list \<Rightarrow> 'db \<Rightarrow> bool \<times> 'db" where
  "save_candidate_data persist data db =
     (case validate_candidate_data data of
        Inl e \<Rightarrow> (False, db)
      | Inr False \<Rightarrow> (False, db)
      | Inr True \<Rightarrow>
          (case persist data db of
             None \<Rightarrow> (False, db)
           | Some db' \<Rightarrow> (True, db')))"

section \<open>Vocabulary of the properties\<close>

definition questions_ok :: "string list \<Rightarrow> bool" where
  "questions_ok qs = list_all (\<lambda>q. q \<noteq> []) qs"

definition tiers_ok :: "(string \<times> string list) list \<Rightarrow> bool" where
  "tiers_ok tiers = list_all (\<lambda>(tier, qs). questions_ok qs) tiers"

definition cache_ok :: "question_cache \<Rightarrow> bool" where
  \<comment> \<open>every cached question is a non-empty string\<close>
  "cache_ok cache = list_all (\<lambda>(k, q). q \<noteq> []) cache"

definition python_intermediate :: "string list" where
  "python_intermediate =
     [''How do decorators work in Python? Provide an example.'',
      ''Explain the concept of generators and their advantages over regular functions.'',
      ''What are context managers in Python and how do you implement them?'']"

definition field_names :: "string list" where
  \<comment> \<open>the fields of the candidate record; each is the name of the state that asks for it\<close>
  "field_names =
     [''name'', ''email'', ''phone'', ''experience'', ''position'', ''location'', ''tech_stack'']"

definition rank :: "chatbot \<Rightarrow> nat" where
  \<comment> \<open>the position of the current state in \<open>states\<close> (10 for a state outside the list)\<close>
  "rank s = index_of (conversation_state s) states"

definition run :: "string list \<Rightarrow> chatbot \<Rightarrow> chatbot" where
  \<comment> \<open>the session after \<open>process_input\<close> on each input in turn\<close>
  "run inputs s = foldl (\<lambda>s i. snd (process_input i s)) s inputs"

inductive reachable :: "chatbot \<Rightarrow> bool" where
  reach_init: "reachable init_chatbot"
| reach_start: "reachable s \<Longrightarrow> reachable (snd (start_conversation s))"
| reach_input: "reachable s \<Longrightarrow> reachable (snd (process_input i s))"
| reach_end: "reachable s \<Longrightarrow> reachable (snd (end_conversation s))"

definition step_ok :: "chatbot \<Rightarrow> chatbot \<Rightarrow> bool" where
  \<comment> \<open>what one call of \<open>process_input\<close> may do to the record, the state and the questions\<close>
  "step_ok s s' \<longleftrightarrow>
     ((candidate_data s' = candidate_data s \<and> rank s \<le> rank s')
      \<or> (\<exists>v. conversation_state s \<in> set field_names
             \<and> candidate_data s' = AList.update (conversation_state s) v (candidate_data s)
             \<and> rank s < rank s'))
     \<and> prefix (technical_questions s) (technical_questions s')
     \<and> (conversation_state s' = conversation_state s \<or> conversation_state s' \<in> set states)"

definition handled_states :: "string list" where
  \<comment> \<open>the states for which \<open>process_input\<close> has a handler of their own\<close>
  "handled_states =
     [''name'', ''email'', ''phone'', ''experience'', ''position'', ''location'', ''tech_stack'',
      ''technical_questions'']"

section \<open>The question generator: results\<close>

lemma rotate_in_set: "qs \<noteq> [] \<Longrightarrow> rotate qs n \<in> set qs"
  unfolding rotate_def
  by (rule nth_mem) (simp add: nat_less_iff)

lemma rotate_nonempty: "questions_ok qs \<Longrightarrow> qs \<noteq> [] \<Longrightarrow> rotate qs n \<noteq> []"
  using rotate_in_set [of qs n] by (auto simp: questions_ok_def list_all_iff)

lemma dict_get_tiers_ok: "tiers_ok tiers \<Longrightarrow> questions_ok (dict_get tiers d [])"
proof (cases "map_of tiers d")
  case None
  then show ?thesis by (simp add: dict_get_def questions_ok_def)
next
  case (Some qs)
  assume ok: "tiers_ok tiers"
  from Some have "(d, qs) \<in> set tiers" by (rule map_of_SomeD)
  with ok have "questions_ok qs" by (auto simp: tiers_ok_def list_all_iff)
  with Some show ?thesis by (simp add: dict_get_def)
qed

lemma tech_questions_ok: "list_all (\<lambda>(key, tiers). tiers_ok tiers) tech_questions"
  by (simp add: tech_questions_def tiers_ok_def questions_ok_def)

lemma generic_pick:
  "dict_get (generic_questions t) d (dict_get (generic_questions t) ''intermediate'' []) \<noteq> []"
  by (simp add: generic_questions_def dict_get_def)

lemma generic_pick_ok:
  "questions_ok (dict_get (generic_questions t) d (dict_get (generic_questions t) ''intermediate'' []))"
  by (simp add: generic_questions_def dict_get_def questions_ok_def)

lemma partial_matches_nonempty:
  "list_all (\<lambda>(key, tiers). tiers_ok tiers) tbl \<Longrightarrow> partial_matches tbl tlo d n = Some q \<Longrightarrow> q \<noteq> []"
proof (induction tbl)
  case Nil
  then show ?case by simp
next
  case (Cons e tbl)
  obtain key tiers where e: "e = (key, tiers)" by (cases e)
  from Cons.prems(1) e have ok: "tiers_ok tiers"
    and rest: "list_all (\<lambda>(key, tiers). tiers_ok tiers) tbl"
    by simp_all
  show ?case
  proof (cases "(py_in key tlo \<or> py_in tlo key) \<and> dict_get tiers d [] \<noteq> []")
    case True
    with Cons.prems(2) e have "q = rotate (dict_get tiers d []) n" by (auto simp: Let_def)
    with True rotate_nonempty [OF dict_get_tiers_ok [OF ok]] show ?thesis by simp
  next
    case False
    with Cons.prems(2) e have "partial_matches tbl tlo d n = Some q"
      by (auto simp: Let_def split: if_splits)
    with Cons.IH rest show ?thesis by simp
  qed
qed

lemma exact_match_nonempty: "exact_match tlo d n = Some q \<Longrightarrow> q \<noteq> []"
proof -
  assume a: "exact_match tlo d n = Some q"
  then obtain tiers where t: "map_of tech_questions tlo = Some tiers"
    and ne: "dict_get tiers d [] \<noteq> []" and q: "q = rotate (dict_get tiers d []) n"
    by (auto simp: exact_match_def Let_def split: option.splits if_splits)
  from t have "(tlo, tiers) \<in> set tech_questions" by (rule map_of_SomeD)
  with tech_questions_ok have "tiers_ok tiers" by (auto simp: list_all_iff)
  with ne q show ?thesis using rotate_nonempty dict_get_tiers_ok by simp
qed

lemma generate_with_simple_ai_some:
  "\<exists>q. generate_with_simple_ai p t n = Some q \<and> q \<noteq> []"
  unfolding generate_with_simple_ai_def Let_def
  using exact_match_nonempty partial_matches_nonempty [OF tech_questions_ok]
    rotate_nonempty [OF generic_pick_ok generic_pick]
  by (auto split: option.splits)

lemma set_update_subset: "set (AList.update k v al) \<subseteq> insert (k, v) (set al)"
  by (induction al) auto

lemma cache_ok_update: "cache_ok cache \<Longrightarrow> q \<noteq> [] \<Longrightarrow> cache_ok (AList.update k q cache)"
  using set_update_subset [of k q cache] by (auto simp: cache_ok_def list_all_iff)

lemma cache_ok_lookup: "cache_ok cache \<Longrightarrow> map_of cache k = Some q \<Longrightarrow> q \<noteq> []"
  by (auto simp: cache_ok_def list_all_iff dest: map_of_SomeD)

lemma generate_question_some:
  assumes "cache_ok cache"
  shows "\<exists>q. fst (generate_question t n cache) = Some q \<and> q \<noteq> []
            \<and> cache_ok (snd (generate_question t n cache))"
proof (cases "map_of cache (cache_key t n)")
  case None
  obtain q where q: "generate_with_simple_ai (create_question_prompt t n) t n = Some q" "q \<noteq> []"
    using generate_with_simple_ai_some by blast
  with None assms show ?thesis
    by (simp add: generate_question_def Let_def cache_ok_update)
next
  case (Some c)
  with assms show ?thesis by (simp add: generate_question_def cache_ok_lookup)
qed

lemma py_lower_python: "py_lower ''python'' = ''python''"
  by (simp add: py_lower_def lower_char_def)

lemma exact_python_intermediate:
  "exact_match ''python'' ''intermediate'' n = Some (rotate python_intermediate n)"
  by (simp add: exact_match_def tech_questions_def dict_get_def python_intermediate_def)

text \<open>
  C1 (as the code has it). On a fresh generator a question number past 3 selects the
  intermediate tier (the default of \<open>difficulty_levels.get\<close>) and wraps inside that tier
  by \<open>(question_number - 1) mod 3\<close>: question \<open>4 + k\<close> for "python" is entry \<open>k mod 3\<close> of
  python's intermediate list, so question 4 is "How do decorators work in Python? Provide an
  example.", while question 1 is the first entry of the basic tier.
\<close>

theorem generate_question_python_wraps_in_tier:
  "fst (generate_question ''python'' (4 + int k) []) = Some (python_intermediate ! (k mod 3))
   \<and> python_intermediate ! 0 = ''How do decorators work in Python? Provide an example.''
   \<and> fst (generate_question ''python'' 1 [])
       = Some ''What are the key differences between lists and tuples in Python?''"
proof -
  have d: "dict_get difficulty_levels (4 + int k) ''intermediate'' = ''intermediate''"
    by (simp add: dict_get_def difficulty_levels_def)
  have "(4 + int k - 1) mod 3 = int (k mod 3)" by (simp add: zmod_int)
  then have m: "rotate python_intermediate (4 + int k) = python_intermediate ! (k mod 3)"
    by (simp add: rotate_def python_intermediate_def)
  have g: "generate_with_simple_ai (create_question_prompt ''python'' (4 + int k)) ''python'' (4 + int k)
      = Some (python_intermediate ! (k mod 3))"
    unfolding generate_with_simple_ai_def Let_def d py_lower_python exact_python_intermediate
    by (simp add: m)
  with generate_with_simple_ai_some
    [of "create_question_prompt ''python'' (4 + int k)" "''python''" "4 + int k"]
  have 1: "fst (generate_question ''python'' (4 + int k) []) = Some (python_intermediate ! (k mod 3))"
    unfolding generate_question_def Let_def by auto
  have 2: "python_intermediate ! 0 = ''How do decorators work in Python? Provide an example.''"
    by (simp add: python_intermediate_def)
  have 3: "fst (generate_question ''python'' 1 [])
       = Some ''What are the key differences between lists and tuples in Python?''"
    by (simp add: generate_question_def generate_with_simple_ai_def exact_match_def
        tech_questions_def dict_get_def difficulty_levels_def rotate_def py_lower_python)
  from 1 2 3 show ?thesis by blast
qed

text \<open>
  C1 as stated fails: on a fresh generator, question 4 for "python" is not the string
  returned for question 1.
\<close>

theorem generate_question_python_4_differs_from_1:
  "fst (generate_question ''python'' 4 []) \<noteq> fst (generate_question ''python'' 1 [])"
  by (simp add: generate_question_def generate_with_simple_ai_def exact_match_def
      tech_questions_def dict_get_def difficulty_levels_def rotate_def py_lower_python)

section \<open>Regular expressions: the matcher decides the language\<close>

lemma conc_nil: "[] \<in> conc A B \<longleftrightarrow> [] \<in> A \<and> [] \<in> B"
  by (auto simp: conc_def)

lemma conc_cons:
  "c # w \<in> conc A B \<longleftrightarrow>
     ([] \<in> A \<and> c # w \<in> B) \<or> (\<exists>u v. w = u @ v \<and> c # u \<in> A \<and> v \<in> B)"
proof
  assume "c # w \<in> conc A B"
  then obtain x y where xy: "c # w = x @ y" "x \<in> A" "y \<in> B"
    by (auto simp: conc_def)
  show "([] \<in> A \<and> c # w \<in> B) \<or> (\<exists>u v. w = u @ v \<and> c # u \<in> A \<and> v \<in> B)"
  proof (cases x)
    case Nil
    with xy show ?thesis by simp
  next
    case (Cons a u)
    with xy have "w = u @ y" "c # u \<in> A" by simp_all
    with xy(3) show ?thesis by blast
  qed
next
  assume "([] \<in> A \<and> c # w \<in> B) \<or> (\<exists>u v. w = u @ v \<and> c # u \<in> A \<and> v \<in> B)"
  then show "c # w \<in> conc A B"
  proof
    assume "[] \<in> A \<and> c # w \<in> B"
    then have "[] @ (c # w) \<in> conc A B" unfolding conc_def by blast
    then show ?thesis by simp
  next
    assume "\<exists>u v. w = u @ v \<and> c # u \<in> A \<and> v \<in> B"
    then obtain u v where "w = u @ v" "c # u \<in> A" "v \<in> B" by blast
    then have "(c # u) @ v \<in> conc A B" unfolding conc_def by blast
    with \<open>w = u @ v\<close> show ?thesis by simp
  qed
qed

lemma star_cons_split:
  "x \<in> star A \<Longrightarrow> x = c # w \<Longrightarrow> \<exists>u v. w = u @ v \<and> c # u \<in> A \<and> v \<in> star A"
proof (induction arbitrary: w rule: star.induct)
  case star_empty
  then show ?case by simp
next
  case (star_step u v)
  show ?case
  proof (cases u)
    case Nil
    with star_step.prems have "v = c # w" by simp
    with star_step.IH show ?thesis by blast
  next
    case (Cons a u')
    with star_step.prems have "a = c" "w = u' @ v" by simp_all
    with Cons star_step.hyps show ?thesis by blast
  qed
qed

lemma star_cons:
  "c # w \<in> star A \<longleftrightarrow> (\<exists>u v. w = u @ v \<and> c # u \<in> A \<and> v \<in> star A)"
proof
  assume "c # w \<in> star A"
  then show "\<exists>u v. w = u @ v \<and> c # u \<in> A \<and> v \<in> star A"
    by (rule star_cons_split) simp
next
  assume "\<exists>u v. w = u @ v \<and> c # u \<in> A \<and> v \<in> star A"
  then obtain u v where uv: "w = u @ v" "c # u \<in> A" "v \<in> star A" by blast
  then have "(c # u) @ v \<in> star A" by (intro star_step)
  with uv(1) show "c # w \<in> star A" by simp
qed

lemma nullable_iff: "nullable r \<longleftrightarrow> [] \<in> lang r"
  by (induction r) (auto simp: conc_nil intro: star_empty)

lemma lang_deriv: "w \<in> lang (deriv c r) \<longleftrightarrow> c # w \<in> lang r"
proof (induction r arbitrary: w)
  case (Times r1 r2)
  have "w \<in> conc (lang (deriv c r1)) (lang r2)
        \<longleftrightarrow> (\<exists>u v. w = u @ v \<and> c # u \<in> lang r1 \<and> v \<in> lang r2)"
    using Times.IH(1) by (auto simp: conc_def)
  with Times.IH(2) show ?case
    by (simp add: conc_cons nullable_iff) blast
next
  case (Star r)
  have "w \<in> conc (lang (deriv c r)) (star (lang r))
        \<longleftrightarrow> (\<exists>u v. w = u @ v \<and> c # u \<in> lang r \<and> v \<in> star (lang r))"
    using Star.IH by (auto simp: conc_def)
  then show ?case by (simp add: star_cons)
qed auto

lemma matches_iff: "matches r s \<longleftrightarrow> s \<in> lang r"
  by (induction s arbitrary: r) (simp_all add: nullable_iff lang_deriv)

lemma star_atoms: "w \<in> star {[c] | c. P c} \<longleftrightarrow> list_all P w"
proof (induction w)
  case Nil
  show ?case by (simp add: star_empty)
next
  case (Cons a w)
  have "a # w \<in> star {[c] | c. P c} \<longleftrightarrow> P a \<and> w \<in> star {[c] | c. P c}"
    by (subst star_cons) auto
  with Cons show ?case by simp
qed

lemma lang_rep_min_atom:
  "w \<in> lang (rep_min (Atom P) m) \<longleftrightarrow> m \<le> length w \<and> list_all P w"
proof (induction m arbitrary: w)
  case 0
  show ?case by (simp add: star_atoms)
next
  case (Suc m)
  show ?case
  proof (cases w)
    case Nil
    then show ?thesis by (simp add: conc_nil)
  next
    case (Cons a u)
    have "a # u \<in> conc {[c] | c. P c} (lang (rep_min (Atom P) m))
          \<longleftrightarrow> P a \<and> u \<in> lang (rep_min (Atom P) m)"
      by (subst conc_cons) auto
    with Suc Cons show ?thesis by auto
  qed
qed

lemma lang_rep_between_atom:
  "w \<in> lang (rep_between (Atom P) m n) \<longleftrightarrow> m \<le> length w \<and> length w \<le> n \<and> list_all P w"
proof (induction "Atom P" m n arbitrary: w rule: rep_between.induct)
  case 1
  show ?case by auto
next
  case (2 n)
  show ?case
  proof (cases w)
    case Nil
    then show ?thesis by simp
  next
    case (Cons a u)
    have "a # u \<in> conc {[c] | c. P c} (lang (rep_between (Atom P) 0 n))
          \<longleftrightarrow> P a \<and> u \<in> lang (rep_between (Atom P) 0 n)"
      by (subst conc_cons) auto
    with 2 Cons show ?thesis by auto
  qed
next
  case (3 m)
  show ?case by auto
next
  case (4 m n)
  show ?case
  proof (cases w)
    case Nil
    then show ?thesis by (simp add: conc_nil)
  next
    case (Cons a u)
    have "a # u \<in> conc {[c] | c. P c} (lang (rep_between (Atom P) m n))
          \<longleftrightarrow> P a \<and> u \<in> lang (rep_between (Atom P) m n)"
      by (subst conc_cons) auto
    with 4 Cons show ?thesis by auto
  qed
qed

lemma conc_iff: "w \<in> conc A B \<longleftrightarrow> (\<exists>u v. w = u @ v \<and> u \<in> A \<and> v \<in> B)"
  by (auto simp: conc_def)

lemma re_match_iff:
  "re_match r s \<longleftrightarrow> s \<in> lang r \<or> (\<exists>w. s = w @ [CHR 0x0A] \<and> w \<in> lang r)"
  by (auto simp: re_match_def matches_iff conc_iff opt_def lit_def)

section \<open>The validation patterns and the string helpers\<close>

lemma lang_phone:
  "s \<in> lang phone_pattern \<longleftrightarrow>
     (\<exists>p body. s = p @ body \<and> (p = [] \<or> p = ''+'') \<and> 8 \<le> length body \<and> length body \<le> 20
        \<and> list_all phone_char body)"
  unfolding phone_pattern_def lang.simps conc_iff opt_def lit_def
  by (simp add: lang_rep_between_atom) blast

lemma lang_name:
  "s \<in> lang name_pattern \<longleftrightarrow>
     2 \<le> length s \<and> length s \<le> 50 \<and> list_all (\<lambda>c. is_alpha_az c \<or> is_space c) s"
  by (simp add: name_pattern_def lang_rep_between_atom)

lemma lang_email:
  "s \<in> lang email_pattern \<longleftrightarrow>
     (\<exists>l d t. s = l @ ''@'' @ d @ ''.'' @ t
        \<and> l \<noteq> [] \<and> list_all email_local l
        \<and> d \<noteq> [] \<and> list_all email_domain d
        \<and> 2 \<le> length t \<and> list_all is_alpha_az t)"
proof -
  have one: "1 \<le> length w \<longleftrightarrow> w \<noteq> []" for w :: string
    by (cases w) simp_all
  have A: "w \<in> lang (rep_min (Atom P) 1) \<longleftrightarrow> w \<noteq> [] \<and> list_all P w" for w P
    by (simp only: lang_rep_min_atom one)
  have T: "w \<in> lang (rep_min (Atom is_alpha_az) 2) \<longleftrightarrow> 2 \<le> length w \<and> list_all is_alpha_az w" for w
    by (simp only: lang_rep_min_atom)
  have at: "w \<in> lang (lit c) \<longleftrightarrow> w = [c]" for w c
    by (auto simp: lit_def)
  show ?thesis
  proof
    assume "s \<in> lang email_pattern"
    then obtain l r1 where 1: "s = l @ r1" "l \<noteq> []" "list_all email_local l"
      and r1: "r1 \<in> lang (Times (lit CHR ''@'')
          (Times (rep_min (Atom email_domain) 1)
             (Times (lit CHR ''.'') (rep_min (Atom is_alpha_az) 2))))"
      unfolding email_pattern_def lang.simps(5) [of "rep_min (Atom email_local) 1"] conc_iff A
      by blast
    from r1 obtain r2 where 2: "r1 = ''@'' @ r2"
      and r2: "r2 \<in> lang (Times (rep_min (Atom email_domain) 1)
             (Times (lit CHR ''.'') (rep_min (Atom is_alpha_az) 2)))"
      unfolding lang.simps(5) [of "lit CHR ''@''"] conc_iff at by auto
    from r2 obtain d r3 where 3: "r2 = d @ r3" "d \<noteq> []" "list_all email_domain d"
      and r3: "r3 \<in> lang (Times (lit CHR ''.'') (rep_min (Atom is_alpha_az) 2))"
      unfolding lang.simps(5) [of "rep_min (Atom email_domain) 1"] conc_iff A by blast
    from r3 obtain t where 4: "r3 = ''.'' @ t" "2 \<le> length t" "list_all is_alpha_az t"
      unfolding lang.simps(5) conc_iff at T by auto
    from 1 2 3 4 show "\<exists>l d t. s = l @ ''@'' @ d @ ''.'' @ t
        \<and> l \<noteq> [] \<and> list_all email_local l
        \<and> d \<noteq> [] \<and> list_all email_domain d
        \<and> 2 \<le> length t \<and> list_all is_alpha_az t"
      by blast
  next
    assume "\<exists>l d t. s = l @ ''@'' @ d @ ''.'' @ t
        \<and> l \<noteq> [] \<and> list_all email_local l
        \<and> d \<noteq> [] \<and> list_all email_domain d
        \<and> 2 \<le> length t \<and> list_all is_alpha_az t"
    then obtain l d t where s: "s = l @ ''@'' @ d @ ''.'' @ t"
      and l: "l \<noteq> []" "list_all email_local l"
      and d: "d \<noteq> []" "list_all email_domain d"
      and t: "2 \<le> length t" "list_all is_alpha_az t"
      by blast
    have r3: "''.'' @ t \<in> lang (Times (lit CHR ''.'') (rep_min (Atom is_alpha_az) 2))"
      unfolding lang.simps(5) conc_iff at T using t by blast
    have r2: "d @ ''.'' @ t \<in> lang (Times (rep_min (Atom email_domain) 1)
             (Times (lit CHR ''.'') (rep_min (Atom is_alpha_az) 2)))"
      unfolding lang.simps(5) [of "rep_min (Atom email_domain) 1"] conc_iff A using d r3 by blast
    have r1: "''@'' @ d @ ''.'' @ t \<in> lang (Times (lit CHR ''@'')
          (Times (rep_min (Atom email_domain) 1)
             (Times (lit CHR ''.'') (rep_min (Atom is_alpha_az) 2))))"
      unfolding lang.simps(5) [of "lit CHR ''@''"] conc_iff at using r2 by blast
    show "s \<in> lang email_pattern"
      unfolding email_pattern_def lang.simps(5) [of "rep_min (Atom email_local) 1"] conc_iff A s
      using l r1 by blast
  qed
qed

lemma py_strip_last: "py_strip s \<noteq> [] \<Longrightarrow> \<not> is_space (last (py_strip s))"
proof -
  assume ne: "py_strip s \<noteq> []"
  define r where "r = dropWhile is_space (rev (dropWhile is_space s))"
  from ne have "r \<noteq> []" by (simp add: py_strip_def r_def)
  then have "\<not> is_space (hd r)" unfolding r_def by (rule hd_dropWhile)
  moreover have "last (py_strip s) = hd r"
    using \<open>r \<noteq> []\<close> by (simp add: py_strip_def r_def last_rev)
  ultimately show ?thesis by simp
qed

lemma is_space_newline: "is_space (CHR 0x0A)"
  by (simp add: is_space_def)

lemma re_match_stripped:
  "re_match r (py_strip s) \<longleftrightarrow> py_strip s \<in> lang r"
proof -
  have "\<not> (\<exists>w. py_strip s = w @ [CHR 0x0A])"
  proof
    assume "\<exists>w. py_strip s = w @ [CHR 0x0A]"
    then obtain w where w: "py_strip s = w @ [CHR 0x0A]" by blast
    then have "py_strip s \<noteq> []" by simp
    from py_strip_last [OF this] w show False by (simp add: is_space_newline)
  qed
  then show ?thesis by (auto simp: re_match_iff)
qed



section \<open>The conversation engine: how one call changes the session\<close>

lemma complete_snd:
  "snd (complete_technical_assessment s) = s\<lparr>conversation_state := ''completed''\<rparr>"
  by (simp add: complete_technical_assessment_def Let_def split: option.splits)

lemma generate_next_props:
  "candidate_data (snd (generate_next_technical_questions s)) = candidate_data s
   \<and> prefix (technical_questions s) (technical_questions (snd (generate_next_technical_questions s)))
   \<and> (conversation_state (snd (generate_next_technical_questions s)) = conversation_state s
      \<or> conversation_state (snd (generate_next_technical_questions s)) = ''completed'')"
proof (induction "length (py_items (case map_of (candidate_data s) ''tech_stack'' of
                     None \<Rightarrow> PList [] | Some v \<Rightarrow> v)) - current_tech_index s"
        arbitrary: s rule: less_induct)
  case less
  show ?case
  proof (cases "map_of (candidate_data s) ''tech_stack''")
    case None
    then show ?thesis by (subst (1 2 3 4) generate_next_technical_questions.simps) simp
  next
    case (Some v)
    show ?thesis
    proof (cases "length (py_items v) \<le> current_tech_index s")
      case True
      with Some show ?thesis by (subst (1 2 3 4) generate_next_technical_questions.simps) simp
    next
      case False
      define g where "g = generate_question (py_items v ! current_tech_index s)
          (int (length (technical_questions s) mod questions_per_tech) + 1) (question_cache s)"
      show ?thesis
      proof (cases "if_question (fst g)")
        case (Some q)
        with \<open>map_of (candidate_data s) ''tech_stack'' = Some v\<close> False show ?thesis
          by (subst (1 2 3 4) generate_next_technical_questions.simps)
             (simp add: Let_def g_def)
      next
        case None
        define s2 where "s2 = s\<lparr>question_cache := snd g, current_tech_index := current_tech_index s + 1\<rparr>"
        show ?thesis
        proof (cases "length (py_items v) \<le> current_tech_index s + 1")
          case True
          with None \<open>map_of (candidate_data s) ''tech_stack'' = Some v\<close> False show ?thesis
            by (subst (1 2 3 4) generate_next_technical_questions.simps)
               (simp add: Let_def g_def complete_snd)
        next
          case nl: False
          have eq: "generate_next_technical_questions s = generate_next_technical_questions s2"
            using None \<open>map_of (candidate_data s) ''tech_stack'' = Some v\<close> False nl
            by (subst generate_next_technical_questions.simps)
               (simp add: Let_def g_def s2_def)
          have "length (py_items (case map_of (candidate_data s2) ''tech_stack'' of
                     None \<Rightarrow> PList [] | Some v \<Rightarrow> v)) - current_tech_index s2
                < length (py_items (case map_of (candidate_data s) ''tech_stack'' of
                     None \<Rightarrow> PList [] | Some v \<Rightarrow> v)) - current_tech_index s"
            using \<open>map_of (candidate_data s) ''tech_stack'' = Some v\<close> False
            by (simp add: s2_def)
          from less [OF this] show ?thesis
            unfolding eq by (simp add: s2_def)
        qed
      qed
    qed
  qed
qed

lemma index_of_states:
  "index_of ''greeting'' states = 0" "index_of ''name'' states = 1"
  "index_of ''email'' states = 2" "index_of ''phone'' states = 3"
  "index_of ''experience'' states = 4" "index_of ''position'' states = 5"
  "index_of ''location'' states = 6" "index_of ''tech_stack'' states = 7"
  "index_of ''technical_questions'' states = 8" "index_of ''completed'' states = 9"
  by (simp_all add: states_def)

lemma index_of_less: "x \<in> set xs \<Longrightarrow> index_of x xs < length xs"
  by (induction xs) auto

lemma index_of_nth: "x \<in> set xs \<Longrightarrow> xs ! index_of x xs = x"
  by (induction xs) auto

lemma states_members:
  "''greeting'' \<in> set states" "''name'' \<in> set states" "''email'' \<in> set states"
  "''phone'' \<in> set states" "''experience'' \<in> set states" "''position'' \<in> set states"
  "''location'' \<in> set states" "''tech_stack'' \<in> set states"
  "''technical_questions'' \<in> set states" "''completed'' \<in> set states"
  by (simp_all add: states_def)

lemma step_ok_refl: "step_ok s s"
  by (simp add: step_ok_def)

lemma handle_name_step:
  "conversation_state s = ''name'' \<Longrightarrow> step_ok s (snd (handle_name i s))"
  by (auto simp: handle_name_def step_ok_def rank_def index_of_states states_members field_names_def)

lemma handle_email_step:
  "conversation_state s = ''email'' \<Longrightarrow> step_ok s (snd (handle_email i s))"
  by (auto simp: handle_email_def step_ok_def rank_def index_of_states states_members field_names_def)

lemma handle_phone_step:
  "conversation_state s = ''phone'' \<Longrightarrow> step_ok s (snd (handle_phone i s))"
  by (auto simp: handle_phone_def step_ok_def rank_def index_of_states states_members field_names_def)

lemma handle_experience_step:
  "conversation_state s = ''experience'' \<Longrightarrow> step_ok s (snd (handle_experience i s))"
  by (auto simp: handle_experience_def step_ok_def rank_def index_of_states states_members field_names_def Let_def
      split: option.splits)

lemma handle_position_step:
  "conversation_state s = ''position'' \<Longrightarrow> step_ok s (snd (handle_position i s))"
  by (auto simp: handle_position_def step_ok_def rank_def index_of_states states_members field_names_def)

lemma handle_location_step:
  "conversation_state s = ''location'' \<Longrightarrow> step_ok s (snd (handle_location i s))"
  by (auto simp: handle_location_def step_ok_def rank_def index_of_states states_members field_names_def)

lemma handle_tech_stack_step:
  assumes "conversation_state s = ''tech_stack''"
  shows "step_ok s (snd (handle_tech_stack i s))"
proof -
  define ts where "ts = filter (\<lambda>t. t \<noteq> []) (map py_strip (py_split CHR '','' i))"
  define s1 where "s1 = s\<lparr>candidate_data := AList.update ''tech_stack'' (PList ts) (candidate_data s),
                conversation_state := ''technical_questions'', current_tech_index := 0\<rparr>"
  show ?thesis
  proof (cases "length ts \<ge> 1")
    case True
    then have eq: "handle_tech_stack i s = generate_next_technical_questions s1"
      by (simp add: handle_tech_stack_def Let_def ts_def s1_def)
    from generate_next_props [of s1] assms show ?thesis
      unfolding eq step_ok_def rank_def
      by (auto simp: s1_def index_of_states field_names_def states_members)
  next
    case False
    then have "handle_tech_stack i s = (Inr (''Please provide at least one technology from your tech stack. ''
                 @ ''You can separate multiple technologies with commas. ''
                 @ ''**Please list your tech stack:**''), s)"
      by (simp add: handle_tech_stack_def Let_def ts_def)
    then show ?thesis by (simp add: step_ok_refl)
  qed
qed

lemma handle_technical_questions_step:
  assumes "conversation_state s = ''technical_questions''"
  shows "step_ok s (snd (handle_technical_questions i s))"
proof -
  define s1 where "s1 = s\<lparr>current_tech_index := current_tech_index s + 1\<rparr>"
  have a: "step_ok s (snd (generate_next_technical_questions s))"
    using generate_next_props [of s] assms
    by (auto simp: step_ok_def rank_def index_of_states states_members)
  have b: "step_ok s (snd (generate_next_technical_questions s1))"
    using generate_next_props [of s1] assms
    by (auto simp: step_ok_def rank_def index_of_states states_members s1_def)
  have c: "step_ok s (snd (complete_technical_assessment (s1\<lparr>conversation_state := ''completed''\<rparr>)))"
    using assms by (simp add: complete_snd step_ok_def rank_def index_of_states states_members s1_def)
  show ?thesis
    using a b c
    by (simp add: handle_technical_questions_def Let_def step_ok_refl s1_def split: option.splits)
qed

lemma handle_fallback_snd: "snd (handle_fallback i s) = s"
  by (simp add: handle_fallback_def)

lemma process_input_step: "step_ok s (snd (process_input i s))"
  unfolding process_input_def Let_def
  by (simp add: step_ok_refl handle_name_step handle_email_step handle_phone_step
      handle_experience_step handle_position_step handle_location_step handle_tech_stack_step
      handle_technical_questions_step handle_fallback_snd)

lemma process_input_dispatch:
  "conversation_state s = ''name'' \<Longrightarrow> process_input i s =
     (if py_strip i = [] then (Inr no_input_message, s) else handle_name (py_strip i) s)"
  "conversation_state s = ''email'' \<Longrightarrow> process_input i s =
     (if py_strip i = [] then (Inr no_input_message, s) else handle_email (py_strip i) s)"
  "conversation_state s = ''phone'' \<Longrightarrow> process_input i s =
     (if py_strip i = [] then (Inr no_input_message, s) else handle_phone (py_strip i) s)"
  "conversation_state s = ''experience'' \<Longrightarrow> process_input i s =
     (if py_strip i = [] then (Inr no_input_message, s) else handle_experience (py_strip i) s)"
  "conversation_state s = ''position'' \<Longrightarrow> process_input i s =
     (if py_strip i = [] then (Inr no_input_message, s) else handle_position (py_strip i) s)"
  "conversation_state s = ''location'' \<Longrightarrow> process_input i s =
     (if py_strip i = [] then (Inr no_input_message, s) else handle_location (py_strip i) s)"
  "conversation_state s = ''tech_stack'' \<Longrightarrow> process_input i s =
     (if py_strip i = [] then (Inr no_input_message, s) else handle_tech_stack (py_strip i) s)"
  "conversation_state s = ''technical_questions'' \<Longrightarrow> process_input i s =
     (if py_strip i = [] then (Inr no_input_message, s)
      else handle_technical_questions (py_strip i) s)"
  by (simp_all add: process_input_def Let_def)

lemma process_input_unhandled:
  "conversation_state s \<notin> set handled_states \<Longrightarrow> process_input i s =
     (if py_strip i = [] then (Inr no_input_message, s) else handle_fallback (py_strip i) s)"
  by (simp add: process_input_def Let_def handled_states_def)

lemma map_of_update_same: "map_of (AList.update k v al) k = Some v"
  by (simp add: update_conv')

lemma map_of_update_other: "k' \<noteq> k \<Longrightarrow> map_of (AList.update k v al) k' = map_of al k'"
  by (simp add: update_conv')

section \<open>Progress\<close>

lemma percent_of_tenths:
  "py_int_of_float (py_float_mul (py_truediv 0 10) 100) = 0"
  "py_int_of_float (py_float_mul (py_truediv 1 10) 100) = 10"
  "py_int_of_float (py_float_mul (py_truediv 2 10) 100) = 20"
  "py_int_of_float (py_float_mul (py_truediv 3 10) 100) = 30"
  "py_int_of_float (py_float_mul (py_truediv 4 10) 100) = 40"
  "py_int_of_float (py_float_mul (py_truediv 5 10) 100) = 50"
  "py_int_of_float (py_float_mul (py_truediv 6 10) 100) = 60"
  "py_int_of_float (py_float_mul (py_truediv 7 10) 100) = 70"
  "py_int_of_float (py_float_mul (py_truediv 8 10) 100) = 80"
  "py_int_of_float (py_float_mul (py_truediv 9 10) 100) = 90"
  by code_simp+

lemma percent_of_index:
  assumes "i < 10"
  shows "py_int_of_float (py_float_mul (py_truediv (int i) 10) 100) = 10 * int i"
proof -
  from assms have "i = 0 \<or> i = 1 \<or> i = 2 \<or> i = 3 \<or> i = 4 \<or> i = 5 \<or> i = 6 \<or> i = 7 \<or> i = 8 \<or> i = 9"
    by arith
  then show ?thesis
    using percent_of_tenths by (elim disjE) simp_all
qed

lemma length_states: "length states = 10"
  by (simp add: states_def)

lemma get_progress_eq:
  "get_progress s = (if conversation_state s \<in> set states then 10 * int (rank s) else 0)"
proof (cases "conversation_state s \<in> set states")
  case True
  then have "rank s < 10"
    using index_of_less [of "conversation_state s" states] by (simp add: rank_def length_states)
  with True show ?thesis
    by (simp add: get_progress_def Let_def length_states percent_of_index flip: rank_def)
next
  case False
  then show ?thesis by (simp add: get_progress_def)
qed

lemma rank_less_10: "conversation_state s \<in> set states \<Longrightarrow> rank s < 10"
  using index_of_less [of "conversation_state s" states] by (simp add: rank_def length_states)

lemma exact_percent:
  assumes "i < 10"
  shows "\<lfloor>100 * rat_of_nat i / rat_of_nat 10\<rfloor> = 10 * int i"
proof -
  have "100 * rat_of_nat i / rat_of_nat 10 = of_int (10 * int i)" by simp
  then show ?thesis by (simp only: floor_of_int)
qed

lemma process_input_outside:
  "conversation_state s \<notin> set states \<Longrightarrow> conversation_state (snd (process_input i s)) = conversation_state s"
  by (auto simp: process_input_def Let_def states_def handle_fallback_snd)

lemma index_of_not_member: "y \<notin> set xs \<Longrightarrow> index_of y xs = length xs"
  by (induction xs) auto

lemma process_input_progress: "get_progress s \<le> get_progress (snd (process_input i s))"
proof (cases "conversation_state s \<in> set states")
  case False
  with process_input_outside [OF False, of i] show ?thesis by (simp add: get_progress_eq)
next
  case True
  have le: "rank s \<le> rank (snd (process_input i s))"
    using process_input_step [of s i] by (auto simp: step_ok_def)
  have stay: "conversation_state (snd (process_input i s)) \<in> set states"
    using process_input_step [of s i] True by (auto simp: step_ok_def)
  from True le stay show ?thesis by (simp add: get_progress_eq)
qed

lemma start_conversation_progress: "get_progress (snd (start_conversation s)) = 10"
  by (simp add: get_progress_eq start_conversation_def rank_def index_of_states states_members)

lemma end_conversation_progress: "get_progress (snd (end_conversation s)) = 0"
  by (simp add: get_progress_eq end_conversation_def states_def)

text \<open>
  C7 (as the code has it). \<open>get_progress\<close> returns an integer in [0,100]: for a state of the
  10-state list it is \<open>floor(100 * index / 10)\<close> (the binary64 computation gives exactly that
  for each of the ten indices), and for any other state, \<open>ended\<close> included, it is 0. A call
  of \<open>process_input\<close> never lowers it, from any session. \<open>start_conversation\<close> sets it to
  10 and \<open>end_conversation\<close> sets it to 0, whatever it was before.
\<close>

theorem get_progress_value_and_input_monotone:
  "0 \<le> get_progress s \<and> get_progress s \<le> 100
   \<and> get_progress s =
       (if conversation_state s \<in> set states
        then \<lfloor>100 * rat_of_nat (index_of (conversation_state s) states) / rat_of_nat (length states)\<rfloor>
        else 0)
   \<and> get_progress s \<le> get_progress (snd (process_input i s))
   \<and> get_progress (snd (start_conversation s)) = 10
   \<and> get_progress (snd (end_conversation s)) = 0"
proof -
  have v: "get_progress s =
       (if conversation_state s \<in> set states
        then \<lfloor>100 * rat_of_nat (index_of (conversation_state s) states) / rat_of_nat (length states)\<rfloor>
        else 0)"
  proof (cases "conversation_state s \<in> set states")
    case True
    from rank_less_10 [OF True] have "rank s < 10" .
    from exact_percent [OF this] True show ?thesis
      by (simp only: get_progress_eq length_states if_True flip: rank_def)
  next
    case False
    then show ?thesis by (simp add: get_progress_eq)
  qed
  have r: "0 \<le> get_progress s \<and> get_progress s \<le> 100"
    using rank_less_10 [of s] by (auto simp: get_progress_eq)
  from v r process_input_progress [of s i] start_conversation_progress [of s]
    end_conversation_progress [of s]
  show ?thesis by blast
qed

text \<open>
  C7 as stated fails: after \<open>start_conversation\<close> the progress is 10, and
  \<open>end_conversation\<close> lowers it to 0.
\<close>

theorem get_progress_drops_at_end:
  "get_progress (snd (end_conversation (snd (start_conversation init_chatbot))))
     < get_progress (snd (start_conversation init_chatbot))"
  by (simp add: start_conversation_progress end_conversation_progress)

text \<open>
  C10. \<open>get_progress\<close> never returns more than 90, from any session whatever: in the state
  \<open>completed\<close>, index 9 of the list, it returns 90, and it never returns 100.
\<close>

theorem get_progress_at_most_90:
  "get_progress s \<le> 90 \<and> get_progress s \<noteq> 100
   \<and> get_progress (s\<lparr>conversation_state := ''completed''\<rparr>) = 90"
proof -
  have "get_progress s \<le> 90"
    using rank_less_10 [of s] by (auto simp: get_progress_eq)
  moreover have "get_progress (s\<lparr>conversation_state := ''completed''\<rparr>) = 90"
    by (simp add: get_progress_eq rank_def index_of_states states_members)
  ultimately show ?thesis by simp
qed

section \<open>The fields: phone and experience\<close>

lemma phone_example: "''+1 555 000 1111'' \<in> lang phone_pattern"
  unfolding lang_phone
  by (rule exI [of _ "''+''"], rule exI [of _ "''1 555 000 1111''"])
     (simp add: phone_char_def is_digit_def is_space_def)

lemma phone_long_example: "''+12345678901234567890'' \<in> lang phone_pattern"
  unfolding lang_phone
  by (rule exI [of _ "''+''"], rule exI [of _ "''12345678901234567890''"])
     (simp add: phone_char_def is_digit_def is_space_def)

lemma py_strip_phone_examples:
  "py_strip ''+1 555 000 1111'' = ''+1 555 000 1111''"
  "py_strip ''+12345678901234567890'' = ''+12345678901234567890''"
  by (simp_all add: py_strip_def is_space_def)

text \<open>
  C4 (as the code has it). When \<open>process_input\<close> accepts an input in state \<open>phone\<close> (it
  advances to \<open>experience\<close>), the stored phone is the trimmed input and consists of an
  optional leading \<open>+\<close> followed by 8 to 20 characters, each a digit, a whitespace character
  (the class \<open>\s\<close>), \<open>-\<close>, \<open>(\<close>, \<open>)\<close> or \<open>.\<close>; so its length is between 8 and 21.
\<close>

theorem phone_accepted_shape:
  assumes "conversation_state s = ''phone''"
    and "conversation_state (snd (process_input i s)) = ''experience''"
  shows "\<exists>p body.
      map_of (candidate_data (snd (process_input i s))) ''phone'' = Some (PStr (p @ body))
      \<and> p @ body = py_strip i \<and> (p = [] \<or> p = ''+'')
      \<and> 8 \<le> length body \<and> length body \<le> 20
      \<and> list_all (\<lambda>c. is_digit c \<or> is_space c \<or> c \<in> set ''-().'') body
      \<and> 8 \<le> length (p @ body) \<and> length (p @ body) \<le> 21"
proof -
  from assms have ne: "py_strip i \<noteq> []"
    by (auto simp: process_input_dispatch)
  with assms have m: "re_match phone_pattern (py_strip i)"
    by (auto simp: process_input_dispatch handle_phone_def split: if_splits)
  then have "py_strip i \<in> lang phone_pattern" by (simp only: re_match_stripped)
  then obtain p body where pb: "py_strip i = p @ body" "p = [] \<or> p = ''+''"
      "8 \<le> length body" "length body \<le> 20" "list_all phone_char body"
    unfolding lang_phone by blast
  from assms(1) ne m
  have "map_of (candidate_data (snd (process_input i s))) ''phone'' = Some (PStr (py_strip i))"
    by (simp add: process_input_dispatch handle_phone_def map_of_update_same)
  moreover have "list_all (\<lambda>c. is_digit c \<or> is_space c \<or> c \<in> set ''-().'') body"
    using pb(5) by (simp add: phone_char_def [abs_def])
  moreover from pb(2,3,4) have "8 \<le> length (p @ body) \<and> length (p @ body) \<le> 21" by auto
  ultimately show ?thesis using pb(1-4) by (metis (no_types, lifting))
qed

theorem phone_accepted_shape_witness:
  "conversation_state (init_chatbot\<lparr>conversation_state := ''phone''\<rparr>) = ''phone''
   \<and> conversation_state (snd (process_input ''+1 555 000 1111''
         (init_chatbot\<lparr>conversation_state := ''phone''\<rparr>))) = ''experience''
   \<and> (\<exists>p body.
      map_of (candidate_data (snd (process_input ''+1 555 000 1111''
         (init_chatbot\<lparr>conversation_state := ''phone''\<rparr>)))) ''phone'' = Some (PStr (p @ body))
      \<and> p @ body = py_strip ''+1 555 000 1111'' \<and> (p = [] \<or> p = ''+'')
      \<and> 8 \<le> length body \<and> length body \<le> 20
      \<and> list_all (\<lambda>c. is_digit c \<or> is_space c \<or> c \<in> set ''-().'') body
      \<and> 8 \<le> length (p @ body) \<and> length (p @ body) \<le> 21)"
proof -
  have a: "conversation_state (init_chatbot\<lparr>conversation_state := ''phone''\<rparr>) = ''phone''"
    by simp
  have b: "conversation_state (snd (process_input ''+1 555 000 1111''
         (init_chatbot\<lparr>conversation_state := ''phone''\<rparr>))) = ''experience''"
    using phone_example
    by (simp add: process_input_dispatch py_strip_phone_examples handle_phone_def re_match_iff)
  from a b phone_accepted_shape [OF a b] show ?thesis by blast
qed

text \<open>
  C4 as stated fails: in state \<open>phone\<close>, the input \<open>+12345678901234567890\<close> (a plus sign
  and 20 digits) is accepted and stored, and it has 21 characters.
\<close>

theorem phone_of_21_characters_accepted:
  "conversation_state (snd (process_input ''+12345678901234567890''
         (init_chatbot\<lparr>conversation_state := ''phone''\<rparr>))) = ''experience''
   \<and> map_of (candidate_data (snd (process_input ''+12345678901234567890''
         (init_chatbot\<lparr>conversation_state := ''phone''\<rparr>)))) ''phone''
       = Some (PStr ''+12345678901234567890'')
   \<and> length ''+12345678901234567890'' = 21"
  using phone_long_example
  by (simp add: process_input_dispatch py_strip_phone_examples handle_phone_def re_match_iff
      map_of_update_same)









section \<open>Termination and the fallback replies\<close>

lemma run_unhandled:
  "conversation_state s \<notin> set handled_states \<Longrightarrow> run inputs s = s"
proof (induction inputs)
  case Nil
  show ?case by (simp add: run_def)
next
  case (Cons i inputs)
  from Cons.prems have "snd (process_input i s) = s"
    by (simp add: process_input_unhandled handle_fallback_def)
  with Cons show ?case by (simp add: run_def)
qed

lemma ended_unhandled: "conversation_state (snd (end_conversation s)) \<notin> set handled_states"
  by (simp add: end_conversation_def handled_states_def)

lemma messages_differ: "not_understood_message \<noteq> screening_complete_message"
  by (simp add: not_understood_message_def screening_complete_message_def)

lemma py_strip_hello: "py_strip ''hello'' = ''hello''"
  by (simp add: py_strip_def is_space_def)

text \<open>
  C8 (as the code has it). \<open>end_conversation\<close>, from any state, sets the state to \<open>ended\<close>
  and returns a non-empty farewell. Every later \<open>process_input\<close> call leaves the whole
  session (record, asked questions, state) as it is, and a non-blank input gets the static
  reply "I'm not sure I understand. ...". In any state without a handler of its own,
  \<open>process_input\<close> leaves the session as it is and replies "I didn't receive any input. ..."
  to a blank input, "Our initial screening is complete! ..." in state \<open>completed\<close>, and
  "I'm not sure I understand. ..." in every other such state.
\<close>

theorem end_conversation_then_static_replies:
  "conversation_state (snd (end_conversation s)) = ''ended''
   \<and> fst (end_conversation s) \<noteq> []
   \<and> run inputs (snd (end_conversation s)) = snd (end_conversation s)
   \<and> (py_strip i \<noteq> [] \<longrightarrow>
        process_input i (snd (end_conversation s))
          = (Inr not_understood_message, snd (end_conversation s)))
   \<and> (conversation_state t \<notin> set handled_states \<longrightarrow>
        process_input i t =
          (Inr (if py_strip i = [] then no_input_message
                else if conversation_state t = ''completed'' then screening_complete_message
                else not_understood_message), t))"
proof -
  have 1: "conversation_state (snd (end_conversation s)) = ''ended''"
    by (simp add: end_conversation_def)
  have 2: "fst (end_conversation s) \<noteq> []"
    by (simp add: end_conversation_def)
  have 3: "run inputs (snd (end_conversation s)) = snd (end_conversation s)"
    by (rule run_unhandled) (rule ended_unhandled)
  have 4: "py_strip i \<noteq> [] \<longrightarrow>
        process_input i (snd (end_conversation s))
          = (Inr not_understood_message, snd (end_conversation s))"
    using ended_unhandled [of s] 1
    by (simp add: process_input_unhandled handle_fallback_def)
  have 5: "conversation_state t \<notin> set handled_states \<longrightarrow>
        process_input i t =
          (Inr (if py_strip i = [] then no_input_message
                else if conversation_state t = ''completed'' then screening_complete_message
                else not_understood_message), t)"
    by (simp add: process_input_unhandled handle_fallback_def)
  from 1 2 3 4 5 show ?thesis by blast
qed

theorem end_conversation_then_static_replies_witness:
  "py_strip ''hello'' \<noteq> []
   \<and> process_input ''hello'' (snd (end_conversation (snd (start_conversation init_chatbot))))
       = (Inr not_understood_message, snd (end_conversation (snd (start_conversation init_chatbot))))
   \<and> conversation_state (init_chatbot\<lparr>conversation_state := ''completed''\<rparr>) \<notin> set handled_states
   \<and> process_input ''hello'' (init_chatbot\<lparr>conversation_state := ''completed''\<rparr>)
       = (Inr screening_complete_message, init_chatbot\<lparr>conversation_state := ''completed''\<rparr>)"
proof -
  have a: "py_strip ''hello'' \<noteq> []" by (simp add: py_strip_hello)
  have b: "conversation_state (init_chatbot\<lparr>conversation_state := ''completed''\<rparr>)
             \<notin> set handled_states"
    by (simp add: handled_states_def)
  from a b
    end_conversation_then_static_replies
      [of "snd (start_conversation init_chatbot)" "[]" "''hello''"
          "init_chatbot\<lparr>conversation_state := ''completed''\<rparr>"]
  show ?thesis by simp
qed

text \<open>
  C8 as stated fails: after \<open>end_conversation\<close>, the reply to the input \<open>hello\<close> is the
  "I'm not sure I understand" message, not the "screening is complete" message.
\<close>

theorem reply_after_end_is_not_screening_complete:
  "fst (process_input ''hello'' (snd (end_conversation (snd (start_conversation init_chatbot)))))
     = Inr not_understood_message
   \<and> not_understood_message \<noteq> screening_complete_message"
  using ended_unhandled [of "snd (start_conversation init_chatbot)"]
  by (simp add: process_input_unhandled handle_fallback_def py_strip_hello messages_differ
      end_conversation_def)

section \<open>The record store\<close>

lemma check_required_iff:
  "check_required data required_fields \<longleftrightarrow>
     (\<exists>n. map_of data ''name'' = Some n \<and> py_truthy n)
     \<and> (\<exists>e. map_of data ''email'' = Some e \<and> py_truthy e)"
  by (auto simp: required_fields_def split: option.splits)

lemma validate_iff:
  "validate_candidate_data data = Inr True \<longleftrightarrow>
     (\<exists>n. map_of data ''name'' = Some n \<and> py_truthy n)
     \<and> (\<exists>e. map_of data ''email'' = Some (PStr e) \<and> e \<noteq> [] \<and> re_match email_pattern e)"
proof (cases "check_required data required_fields")
  case False
  then have "validate_candidate_data data = Inr False"
    by (simp add: validate_candidate_data_def)
  moreover from False have "\<not> ((\<exists>n. map_of data ''name'' = Some n \<and> py_truthy n)
     \<and> (\<exists>e. map_of data ''email'' = Some (PStr e) \<and> e \<noteq> [] \<and> re_match email_pattern e))"
    unfolding check_required_iff by (auto simp: py_truthy_def)
  ultimately show ?thesis by simp
next
  case True
  then obtain n e where n: "map_of data ''name'' = Some n" "py_truthy n"
    and e: "map_of data ''email'' = Some e" "py_truthy e"
    unfolding check_required_iff by blast
  show ?thesis
  proof (cases e)
    case (PStr x)
    with True n e show ?thesis
      by (auto simp: validate_candidate_data_def py_truthy_def)
  next
    case (PList xs)
    with True n e show ?thesis
      by (auto simp: validate_candidate_data_def)
  qed
qed

lemma email_match_shape:
  "re_match email_pattern e \<longleftrightarrow>
     (\<exists>l d t nl. e = l @ ''@'' @ d @ ''.'' @ t @ nl
        \<and> l \<noteq> [] \<and> list_all email_local l
        \<and> d \<noteq> [] \<and> list_all email_domain d
        \<and> 2 \<le> length t \<and> list_all is_alpha_az t
        \<and> (nl = [] \<or> nl = [CHR 0x0A]))"
proof
  assume "re_match email_pattern e"
  then consider "e \<in> lang email_pattern" | w where "e = w @ [CHR 0x0A]" "w \<in> lang email_pattern"
    unfolding re_match_iff by blast
  then show "\<exists>l d t nl. e = l @ ''@'' @ d @ ''.'' @ t @ nl
        \<and> l \<noteq> [] \<and> list_all email_local l
        \<and> d \<noteq> [] \<and> list_all email_domain d
        \<and> 2 \<le> length t \<and> list_all is_alpha_az t
        \<and> (nl = [] \<or> nl = [CHR 0x0A])"
  proof cases
    case 1
    then obtain l d t where "e = l @ ''@'' @ d @ ''.'' @ t @ []"
      "l \<noteq> []" "list_all email_local l" "d \<noteq> []" "list_all email_domain d"
      "2 \<le> length t" "list_all is_alpha_az t"
      unfolding lang_email by auto
    then show ?thesis by blast
  next
    case 2
    then obtain l d t where "e = l @ ''@'' @ d @ ''.'' @ t @ [CHR 0x0A]"
      "l \<noteq> []" "list_all email_local l" "d \<noteq> []" "list_all email_domain d"
      "2 \<le> length t" "list_all is_alpha_az t"
      unfolding lang_email by auto
    then show ?thesis by blast
  qed
next
  assume "\<exists>l d t nl. e = l @ ''@'' @ d @ ''.'' @ t @ nl
        \<and> l \<noteq> [] \<and> list_all email_local l
        \<and> d \<noteq> [] \<and> list_all email_domain d
        \<and> 2 \<le> length t \<and> list_all is_alpha_az t
        \<and> (nl = [] \<or> nl = [CHR 0x0A])"
  then obtain l d t nl where e: "e = l @ ''@'' @ d @ ''.'' @ t @ nl"
    and p: "l \<noteq> []" "list_all email_local l" "d \<noteq> []" "list_all email_domain d"
      "2 \<le> length t" "list_all is_alpha_az t"
    and nl: "nl = [] \<or> nl = [CHR 0x0A]"
    by blast
  from p have w: "l @ ''@'' @ d @ ''.'' @ t \<in> lang email_pattern"
    unfolding lang_email by blast
  from nl show "re_match email_pattern e"
  proof
    assume "nl = []"
    with e w show ?thesis by (simp add: re_match_iff)
  next
    assume "nl = [CHR 0x0A]"
    with e have "e = (l @ ''@'' @ d @ ''.'' @ t) @ [CHR 0x0A]" by simp
    with w show ?thesis unfolding re_match_iff by blast
  qed
qed

lemma email_example: "re_match email_pattern ''jane@x.com''"
  by code_simp

lemma email_bad_example: "\<not> re_match email_pattern ''jane.x.com''"
  by code_simp

text \<open>
  C9. The validation of \<open>save_candidate_data\<close> accepts a record exactly when it has a
  non-empty name and a non-empty email string that matches the email pattern. When the
  validation does not accept, \<open>save_candidate_data\<close> returns False and the store is as
  before; it returns True only for an accepted record, and for an accepted record its result
  is that of the database transaction (True with the new store, False with the old one when
  the transaction raises).
\<close>

theorem save_candidate_data_validates:
  "(validate_candidate_data data = Inr True \<longleftrightarrow>
      (\<exists>n. map_of data ''name'' = Some n \<and> py_truthy n)
      \<and> (\<exists>e. map_of data ''email'' = Some (PStr e) \<and> e \<noteq> [] \<and> re_match email_pattern e))
   \<and> (validate_candidate_data data \<noteq> Inr True \<longrightarrow>
        save_candidate_data persist data db = (False, db))
   \<and> (fst (save_candidate_data persist data db) \<longrightarrow> validate_candidate_data data = Inr True)
   \<and> (validate_candidate_data data = Inr True \<longrightarrow>
        save_candidate_data persist data db =
          (case persist data db of None \<Rightarrow> (False, db) | Some db' \<Rightarrow> (True, db')))"
proof -
  have 2: "validate_candidate_data data \<noteq> Inr True \<longrightarrow>
        save_candidate_data persist data db = (False, db)"
    by (auto simp: save_candidate_data_def split: sum.splits bool.splits)
  have 4: "validate_candidate_data data = Inr True \<longrightarrow>
        save_candidate_data persist data db =
          (case persist data db of None \<Rightarrow> (False, db) | Some db' \<Rightarrow> (True, db'))"
    by (simp add: save_candidate_data_def)
  have 3: "fst (save_candidate_data persist data db) \<longrightarrow> validate_candidate_data data = Inr True"
    using 2 by auto
  from validate_iff [of data] 2 3 4 show ?thesis by blast
qed

theorem save_candidate_data_validates_witness:
  "validate_candidate_data [(''name'', PStr ''Jane Doe''), (''email'', PStr ''jane@x.com'')] = Inr True
   \<and> save_candidate_data (\<lambda>d db. Some (d # db))
        [(''name'', PStr ''Jane Doe''), (''email'', PStr ''jane@x.com'')] []
       = (True, [[(''name'', PStr ''Jane Doe''), (''email'', PStr ''jane@x.com'')]])
   \<and> validate_candidate_data [(''name'', PStr ''Jane Doe''), (''email'', PStr ''jane.x.com'')]
       \<noteq> Inr True
   \<and> save_candidate_data (\<lambda>d db. Some (d # db))
        [(''name'', PStr ''Jane Doe''), (''email'', PStr ''jane.x.com'')] []
       = (False, [])"
proof -
  let ?good = "[(''name'', PStr ''Jane Doe''), (''email'', PStr ''jane@x.com'')]"
  let ?bad = "[(''name'', PStr ''Jane Doe''), (''email'', PStr ''jane.x.com'')]"
  let ?persist = "\<lambda>d db. Some (d # db) :: (string \<times> pyval) list list option"
  note good = save_candidate_data_validates [of ?good ?persist "[]"]
  note bad = save_candidate_data_validates [of ?bad ?persist "[]"]
  have "(\<exists>n. map_of ?good ''name'' = Some n \<and> py_truthy n)
      \<and> (\<exists>e. map_of ?good ''email'' = Some (PStr e) \<and> e \<noteq> [] \<and> re_match email_pattern e)"
    using email_example by (simp add: py_truthy_def)
  then have g: "validate_candidate_data ?good = Inr True"
    by (rule iffD2 [OF good [THEN conjunct1]])
  have "\<not> ((\<exists>n. map_of ?bad ''name'' = Some n \<and> py_truthy n)
      \<and> (\<exists>e. map_of ?bad ''email'' = Some (PStr e) \<and> e \<noteq> [] \<and> re_match email_pattern e))"
    using email_bad_example by simp
  then have b: "validate_candidate_data ?bad \<noteq> Inr True"
    using bad [THEN conjunct1] by blast
  have "save_candidate_data ?persist ?good [] =
          (case ?persist ?good [] of None \<Rightarrow> (False, []) | Some db' \<Rightarrow> (True, db'))"
    by (rule good [THEN conjunct2, THEN conjunct2, THEN conjunct2, THEN mp, OF g])
  then have g2: "save_candidate_data ?persist ?good [] = (True, [?good])" by simp
  have b2: "save_candidate_data ?persist ?bad [] = (False, [])"
    by (rule bad [THEN conjunct2, THEN conjunct1, THEN mp, OF b])
  from g g2 b b2 show ?thesis by blast
qed

end
